theory Spec2Isabelle
  imports Main "HOL-Library.Word"
begin

unbundle bit_operations_syntax

section \<open>Text\<close>

text \<open>
  Python strings are modelled as \<^typ>\<open>string\<close>. The two characters the program singles
  out are the separator of the native buffer, \<open>"\0"\<close>, and the path separator of Windows.
  A cell of the native buffer is a wide character; the model keeps one \<^typ>\<open>char\<close> per
  cell, read as a code point below 256, and nothing below depends on the width of a cell.
\<close>

abbreviation NUL :: char where
  "NUL \<equiv> CHR 0x00"

abbreviation BSL :: char where
  "BSL \<equiv> CHR 0x5C"

text \<open>\<open>s.split(sep)\<close> for a one-character separator: never an empty list.\<close>

fun split_sep :: "char \<Rightarrow> string \<Rightarrow> string list" where
  "split_sep sep [] = [[]]"
| "split_sep sep (c # cs) =
     (if c = sep then [] # split_sep sep cs
      else (case split_sep sep cs of
              [] \<Rightarrow> [[c]]
            | t # ts \<Rightarrow> (c # t) # ts))"

text \<open>\<open>str(n)\<close> for an integer, as the f-string of the diagnostic formats it.\<close>

definition digit :: "nat \<Rightarrow> char" where
  "digit d = ''0123456789'' ! d"

function str_nat :: "nat \<Rightarrow> string" where
  "str_nat n = (if n < 10 then [digit n] else str_nat (n div 10) @ [digit (n mod 10)])"
  by pat_completeness auto
termination
  by (relation "measure id") auto

declare str_nat.simps [simp del]

definition str_int :: "int \<Rightarrow> string" where
  "str_int i = (if i < 0 then CHR ''-'' # str_nat (nat (- i)) else str_nat (nat i))"

section \<open>Exceptions\<close>

datatype py_error =
    ValueError string
  | IndexError string
  | OverflowError string
  | MemoryError

text \<open>\<open>xs[0]\<close>: raises on the empty list.\<close>

definition item0 :: "'a list \<Rightarrow> py_error + 'a" where
  "item0 xs = (case xs of [] \<Rightarrow> Inl (IndexError ''list index out of range'') | x # _ \<Rightarrow> Inr x)"

section \<open>The native buffer\<close>

text \<open>
  \<open>ctypes.create_unicode_buffer(size)\<close> with an integer, on a 64-bit build of CPython
  for Windows, where a wide character has two bytes. The array type \<open>c_wchar * size\<close>
  is refused when the length does not fit an index (below \<open>-2^63\<close> or from \<open>2^63\<close> on),
  when it is negative, and when its size in bytes does not fit an index (from \<open>2^62\<close>
  on), in this order; creating the array fails when the process cannot get the memory.
  \<open>avail\<close> is the number of cells the process can still get. On success the array
  holds \<open>size\<close> null characters.
\<close>

definition create_unicode_buffer :: "nat \<Rightarrow> int \<Rightarrow> py_error + string" where
  "create_unicode_buffer avail n =
     (if n < - 9223372036854775808 \<or> 9223372036854775808 \<le> n then
        Inl (OverflowError ''cannot fit 'int' into an index-sized integer'')
      else if n < 0 then
        Inl (ValueError (''Array length must be >= 0, not '' @ str_int n))
      else if 4611686018427387904 \<le> n then
        Inl (OverflowError ''array too large'')
      else if avail < nat n then Inl MemoryError
      else Inr (replicate (nat n) NUL))"

text \<open>
  A native call that fills the buffer stores its text from the first cell on and leaves
  the cells behind it as they were; the array keeps its length, so text beyond the
  capacity does not become part of \<open>buffer[:]\<close>.
\<close>

definition store :: "string \<Rightarrow> string \<Rightarrow> string" where
  "store buffer txt = take (length buffer) (txt @ drop (length txt) buffer)"

section \<open>os.path.join on Windows\<close>

text \<open>
  \<open>ntpath.join\<close> of CPython 3.11 for two components, with its \<open>splitdrive\<close>.
  \<open>lower_char\<close> is \<open>str.lower\<close> on one code point below 256: the letters A to Z and the
  Latin-1 capitals, the multiplication sign apart. \<open>upper_char\<close> is \<open>str.upper\<close> on the
  code points below 256 whose upper case is one code point below 256; the other three
  (the micro sign, the sharp s, the y with diaeresis) are left as they are, which changes
  no comparison with the prefix \<open>unc_prefix\<close>, since their upper case holds none of its
  characters.
\<close>

definition is_sep :: "char \<Rightarrow> bool" where
  "is_sep c \<longleftrightarrow> c = BSL \<or> c = CHR ''/''"

definition upper_char :: "char \<Rightarrow> char" where
  "upper_char c =
     (let k = (of_char c :: nat)
      in if (97 \<le> k \<and> k \<le> 122) \<or> (224 \<le> k \<and> k \<le> 254 \<and> k \<noteq> 247)
         then char_of (k - 32) else c)"

definition lower_char :: "char \<Rightarrow> char" where
  "lower_char c =
     (let k = (of_char c :: nat)
      in if (65 \<le> k \<and> k \<le> 90) \<or> (192 \<le> k \<and> k \<le> 222 \<and> k \<noteq> 215)
         then char_of (k + 32) else c)"

fun index_of :: "char \<Rightarrow> string \<Rightarrow> nat option" where
  "index_of c [] = None"
| "index_of c (x # xs) = (if x = c then Some 0 else map_option Suc (index_of c xs))"

text \<open>\<open>s.find(c, start)\<close>, with \<open>None\<close> for \<open>-1\<close>.\<close>

definition find_from :: "char \<Rightarrow> string \<Rightarrow> nat \<Rightarrow> nat option" where
  "find_from c s start =
     (if length s < start then None
      else map_option (\<lambda>i. i + start) (index_of c (drop start s)))"

definition unc_prefix :: string where
  "unc_prefix = [BSL, BSL] @ ''?'' @ [BSL] @ ''UNC'' @ [BSL]"

definition splitdrive :: "string \<Rightarrow> string \<times> string" where
  "splitdrive p =
     (if 2 \<le> length p then
        let normp = map (\<lambda>c. if c = CHR ''/'' then BSL else c) p in
        if take 2 normp = [BSL, BSL] then
          let start = (if map upper_char (take 8 normp) = unc_prefix then 8 else 2) in
          (case find_from BSL normp start of
             None \<Rightarrow> (p, [])
           | Some index \<Rightarrow>
               (case find_from BSL normp (index + 1) of
                  None \<Rightarrow> (p, [])
                | Some index2 \<Rightarrow> (take index2 p, drop index2 p)))
        else if take 1 (drop 1 normp) = '':'' then (take 2 p, drop 2 p)
        else ([], p)
      else ([], p))"

definition ntpath_join :: "string \<Rightarrow> string \<Rightarrow> string" where
  "ntpath_join path p =
     (let (result_drive, result_path) = splitdrive path;
          (p_drive, p_path) = splitdrive p;
          (result_drive, result_path) =
            (if p_path \<noteq> [] \<and> is_sep (hd p_path) then
               (if p_drive \<noteq> [] \<or> result_drive = [] then p_drive else result_drive, p_path)
             else if p_drive \<noteq> [] \<and> p_drive \<noteq> result_drive
                     \<and> map lower_char p_drive \<noteq> map lower_char result_drive then
               (p_drive, p_path)
             else
               (if p_drive \<noteq> [] \<and> p_drive \<noteq> result_drive then p_drive else result_drive,
                (if result_path \<noteq> [] \<and> \<not> is_sep (last result_path)
                 then result_path @ [BSL] else result_path) @ p_path))
      in if result_path \<noteq> [] \<and> \<not> is_sep (hd result_path)
            \<and> result_drive \<noteq> [] \<and> last result_drive \<noteq> CHR '':''
         then result_drive @ [BSL] @ result_path
         else result_drive @ result_path)"

section \<open>The platform\<close>

text \<open>
  The structures handed to the dialogs. Only the fields that vary with the call are kept:
  the owner, root, hook and template fields are null, and the title and filter are fixed
  text that is never read back.
\<close>

record BROWSEINFO =
  ulFlags :: "32 word"

record OPENFILENAME =
  nMaxFile :: "32 word"
  Flags :: "32 word"

definition FOS_PICKFOLDERS :: "32 word" where
  "FOS_PICKFOLDERS = 0x00000020"

definition OFN_ALLOWMULTISELECT :: "32 word" where
  "OFN_ALLOWMULTISELECT = 0x00000200"

definition OFN_EXPLORER :: "32 word" where
  "OFN_EXPLORER = 0x00080000"

definition OFN_FILEMUSTEXIST :: "32 word" where
  "OFN_FILEMUSTEXIST = 0x00000008"

text \<open>
  What a call of \<open>select_items\<close> does to the outside, in order. \<open>LoadLibrary\<close> and
  \<open>GetProcAddress\<close> are what \<open>ctypes\<close> asks of the operating system when a library is
  first named on \<open>ctypes.windll\<close> and when a function is first named on a library; the
  other events are the calls of the bound functions and the lines printed.
\<close>

datatype event =
    LoadLibrary string
  | GetProcAddress string string
  | CoInitialize
  | SHBrowseForFolderW BROWSEINFO
  | SHGetPathFromIDListW nat
  | CoTaskMemFree nat
  | CoUninitialize
  | GetOpenFileNameW OPENFILENAME
  | CommDlgExtendedError
  | Print string

text \<open>
  What the platform answers during one call: the value each native function returns and
  the text it stores in the buffer. An item identifier is an address, \<open>0\<close> being the null
  pointer; the two functions of comdlg32 return a C \<open>int\<close>. \<open>os.path.join\<close> belongs to
  the platform too, as do the memory the process can still get, counted in cells of the
  buffer, and the libraries and functions \<open>ctypes\<close> has bound earlier in the process,
  which it keeps and does not ask for again. The system libraries and their functions
  are taken to be present.
\<close>

record platform =
  browse_pidl :: nat
  browse_text :: string
  getpath_ok :: "32 word"
  getpath_text :: string
  open_flag :: "32 word"
  open_text :: string
  extended_error :: "32 word"
  path_join :: "string \<Rightarrow> string \<Rightarrow> string"
  memory :: nat
  bound :: "event list"

text \<open>Naming a library or a function: asked of the operating system unless already bound.\<close>

definition lookup :: "platform \<Rightarrow> event \<Rightarrow> event list" where
  "lookup P ev = (if ev \<in> set (bound P) then [] else [ev])"

section \<open>select_items\<close>

definition invalid_mode :: string where
  "invalid_mode = ''Invalid select_mode value. Must be 'folder', 'file', or 'multi-files'.''"

definition select_items :: "platform \<Rightarrow> string \<Rightarrow> int \<Rightarrow> event list \<times> (py_error + string list)" where
  "select_items P select_mode buffer_size =
     (case create_unicode_buffer (memory P) buffer_size of
        Inl e \<Rightarrow> ([], Inl e)
      | Inr buffer \<Rightarrow>
          if select_mode = ''folder'' then
            let t = lookup P (LoadLibrary ''shell32'') @ lookup P (LoadLibrary ''ole32'');
                t = t @ lookup P (GetProcAddress ''ole32'' ''CoInitialize'') @ [CoInitialize];
                t = t @ lookup P (GetProcAddress ''shell32'' ''SHBrowseForFolderW'')
                      @ lookup P (GetProcAddress ''shell32'' ''SHGetPathFromIDListW'')
                      @ lookup P (GetProcAddress ''ole32'' ''CoTaskMemFree'');
                bi = \<lparr>ulFlags = FOS_PICKFOLDERS\<rparr>;
                pidl = browse_pidl P;
                buffer = store buffer (browse_text P);
                t = t @ [SHBrowseForFolderW bi]
            in if pidl \<noteq> 0 then
                 let buffer = store buffer (getpath_text P);
                     t = t @ [SHGetPathFromIDListW pidl];
                     result = split_sep NUL buffer;
                     t = t @ [CoTaskMemFree pidl];
                     t = t @ lookup P (GetProcAddress ''ole32'' ''CoUninitialize'')
                           @ [CoUninitialize]
                 in (case item0 result of
                       Inl e \<Rightarrow> (t, Inl e)
                     | Inr r \<Rightarrow> (t, Inr [r]))
               else (t @ lookup P (GetProcAddress ''ole32'' ''CoUninitialize'')
                       @ [CoUninitialize], Inr [])
          else
            let t = lookup P (LoadLibrary ''comdlg32'')
                      @ lookup P (GetProcAddress ''comdlg32'' ''GetOpenFileNameW'')
                      @ lookup P (GetProcAddress ''comdlg32'' ''CommDlgExtendedError'')
            in (case (if select_mode = ''file'' then
                        Inr (OFN_EXPLORER OR OFN_FILEMUSTEXIST)
                      else if select_mode = ''multi-files'' then
                        Inr (OFN_EXPLORER OR OFN_FILEMUSTEXIST OR OFN_ALLOWMULTISELECT)
                      else Inl (ValueError invalid_mode)) of
                  Inl e \<Rightarrow> (t, Inl e)
                | Inr fl \<Rightarrow>
                    let ofn = \<lparr>nMaxFile = word_of_int buffer_size, Flags = fl\<rparr>;
                        flag = open_flag P;
                        buffer = store buffer (open_text P);
                        t = t @ [GetOpenFileNameW ofn]
                    in if flag \<noteq> 0 then
                         let result = filter (\<lambda>item. item \<noteq> []) (split_sep NUL buffer) in
                         if 1 < length result then
                           (case item0 result of
                              Inl e \<Rightarrow> (t, Inl e)
                            | Inr folder \<Rightarrow>
                                (t, Inr (map (path_join P folder)
                                           (filter (\<lambda>f. f \<noteq> []) (drop 1 result)))))
                         else
                           (case item0 result of
                              Inl e \<Rightarrow> (t, Inl e)
                            | Inr r \<Rightarrow> (t, Inr [r]))
                       else
                         let error_code = extended_error P;
                             t = t @ [CommDlgExtendedError]
                         in if error_code = 0 then
                              (t @ [Print ''Dialog canceled.''], Inr [])
                            else
                              (t @ [Print (''Error occurred. CommDlgExtendedError code: ''
                                           @ str_int (sint error_code))], Inr [])))"

section \<open>Vocabulary of the properties\<close>

text \<open>The buffer size is one that the allocation of line 67 accepts.\<close>

definition allocates :: "platform \<Rightarrow> int \<Rightarrow> bool" where
  "allocates P n \<longleftrightarrow> 0 \<le> n \<and> n < 4611686018427387904 \<and> nat n \<le> memory P"

text \<open>
  The events of a trace that are not bindings: the calls of the bound functions and the
  printed lines.
\<close>

definition is_binding :: "event \<Rightarrow> bool" where
  "is_binding ev = (case ev of LoadLibrary _ \<Rightarrow> True | GetProcAddress _ _ \<Rightarrow> True | _ \<Rightarrow> False)"

definition calls :: "event list \<Rightarrow> event list" where
  "calls tr = filter (\<lambda>ev. \<not> is_binding ev) tr"

text \<open>What the file branch asks of the operating system before it looks at the mode.\<close>

definition comdlg32_bindings :: "platform \<Rightarrow> event list" where
  "comdlg32_bindings P =
     lookup P (LoadLibrary ''comdlg32'')
     @ lookup P (GetProcAddress ''comdlg32'' ''GetOpenFileNameW'')
     @ lookup P (GetProcAddress ''comdlg32'' ''CommDlgExtendedError'')"

text \<open>The non-empty pieces of a buffer between null characters, in order.\<close>

definition tokens :: "string \<Rightarrow> string list" where
  "tokens buffer = filter (\<lambda>item. item \<noteq> []) (split_sep NUL buffer)"

text \<open>The buffer as the open-file dialog leaves it.\<close>

definition file_buffer :: "platform \<Rightarrow> int \<Rightarrow> string" where
  "file_buffer P buffer_size = store (replicate (nat buffer_size) NUL) (open_text P)"

text \<open>
  The buffer in folder mode once the item identifier has been resolved: the browse dialog
  has stored the display name, then the resolution its text.
\<close>

definition folder_buffer :: "platform \<Rightarrow> int \<Rightarrow> string" where
  "folder_buffer P buffer_size =
     store (store (replicate (nat buffer_size) NUL) (browse_text P)) (getpath_text P)"


definition is_Print :: "event \<Rightarrow> bool" where
  "is_Print ev = (case ev of Print _ \<Rightarrow> True | _ \<Rightarrow> False)"

text \<open>
  A platform on which nothing is selected and nothing fails, in a process that has bound
  no library yet and can get a million cells.
\<close>

definition idle :: platform where
  "idle = \<lparr>browse_pidl = 0, browse_text = [], getpath_ok = 0, getpath_text = [],
           open_flag = 0, open_text = [], extended_error = 0, path_join = ntpath_join,
           memory = 1000000, bound = []\<rparr>"

text \<open>The buffers and the folder path of the worked examples.\<close>

definition multi_selection :: string where
  "multi_selection = ''C:'' @ [BSL] @ ''Dir'' @ [NUL] @ ''a.txt'' @ [NUL] @ ''b.txt'' @ [NUL, NUL]"

definition single_selection :: string where
  "single_selection = ''C:'' @ [BSL] @ ''Dir'' @ [BSL] @ ''a.txt'' @ [NUL, NUL]"


text \<open>The structure the file branch hands to the dialog, by mode.\<close>

definition ofn_of :: "string \<Rightarrow> int \<Rightarrow> OPENFILENAME" where
  "ofn_of m n = \<lparr>nMaxFile = word_of_int n,
                 Flags = (if m = ''file'' then OFN_EXPLORER OR OFN_FILEMUSTEXIST
                          else OFN_EXPLORER OR OFN_FILEMUSTEXIST OR OFN_ALLOWMULTISELECT)\<rparr>"

text \<open>
  The call reports a failure of the dialog: the extended error code is fetched, a line
  carrying it is printed, and the empty list is returned.
\<close>

definition diagnosed :: "platform \<Rightarrow> string \<Rightarrow> int \<Rightarrow> bool" where
  "diagnosed P m n \<longleftrightarrow>
     CommDlgExtendedError \<in> set (fst (select_items P m n))
     \<and> Print (''Error occurred. CommDlgExtendedError code: ''
              @ str_int (sint (extended_error P))) \<in> set (fst (select_items P m n))
     \<and> snd (select_items P m n) = Inr []"

section \<open>Splitting and storing\<close>

lemma split_sep_not_Nil: "split_sep sep s \<noteq> []"
  by (induction s) (auto split: list.splits)

lemma split_sep_Cons_other:
  "c \<noteq> sep \<Longrightarrow> split_sep sep (c # cs) = (c # hd (split_sep sep cs)) # tl (split_sep sep cs)"
  using split_sep_not_Nil [of sep cs] by (cases "split_sep sep cs") auto

lemma split_sep_head: "hd (split_sep sep s) = takeWhile (\<lambda>c. c \<noteq> sep) s"
proof (induction s)
  case Nil
  show ?case by simp
next
  case (Cons c cs)
  show ?case
  proof (cases "c = sep")
    case True
    then show ?thesis by simp
  next
    case False
    with Cons show ?thesis by (simp add: split_sep_Cons_other del: split_sep.simps(2))
  qed
qed

lemma item0_split_sep: "item0 (split_sep sep s) = Inr (takeWhile (\<lambda>c. c \<noteq> sep) s)"
  using split_sep_not_Nil [of sep s] split_sep_head [of sep s]
  by (cases "split_sep sep s") (auto simp: item0_def)

lemma split_sep_replicate: "split_sep sep (replicate k sep) = replicate (Suc k) []"
  by (induction k) auto

lemma split_sep_padding:
  "split_sep sep (s @ replicate k sep) = split_sep sep s @ replicate k []"
proof (induction s)
  case Nil
  show ?case by (simp add: split_sep_replicate)
next
  case (Cons c cs)
  show ?case
  proof (cases "c = sep")
    case True
    with Cons show ?thesis by simp
  next
    case False
    obtain t ts where r: "split_sep sep cs = t # ts"
      using split_sep_not_Nil [of sep cs] by (cases "split_sep sep cs") auto
    with False Cons show ?thesis by simp
  qed
qed

lemma tokens_padding: "tokens (s @ replicate k NUL) = tokens s"
  by (simp add: tokens_def split_sep_padding)

lemma tokens_empty_iff: "tokens s = [] \<longleftrightarrow> set s \<subseteq> {NUL}"
proof (induction s)
  case Nil
  show ?case by (simp add: tokens_def)
next
  case (Cons c cs)
  show ?case
  proof (cases "c = NUL")
    case True
    with Cons show ?thesis by (simp add: tokens_def)
  next
    case False
    then show ?thesis by (simp add: tokens_def split_sep_Cons_other del: split_sep.simps(2))
  qed
qed

lemma tokens_not_empty: "t \<in> set (tokens s) \<Longrightarrow> t \<noteq> []"
  by (simp add: tokens_def)

lemma filter_tail_tokens: "filter (\<lambda>f. f \<noteq> []) (drop 1 (tokens s)) = drop 1 (tokens s)"
  by (rule filter_True) (auto dest: in_set_dropD tokens_not_empty)


lemma store_blank:
  "length txt \<le> n \<Longrightarrow> store (replicate n NUL) txt = txt @ replicate (n - length txt) NUL"
  by (simp add: store_def)

lemma takeWhile_store_prefix:
  assumes "NUL \<notin> set path" and "length path < length buffer"
  shows "takeWhile (\<lambda>c. c \<noteq> NUL) (store buffer (path @ NUL # rest)) = path"
proof -
  have "store buffer (path @ NUL # rest) =
          path @ NUL # take (length buffer - Suc (length path))
                         (rest @ drop (Suc (length path + length rest)) buffer)"
    using assms(2) by (simp add: store_def take_Cons')
  moreover have "takeWhile (\<lambda>c. c \<noteq> NUL) (path @ NUL # tl) = path" for tl
    using assms(1) by (subst takeWhile_append2) auto
  ultimately show ?thesis by simp
qed

section \<open>Decimal text\<close>

lemma str_nat_digit: "n < 10 \<Longrightarrow> str_nat n = [digit n]"
  by (subst str_nat.simps) simp

lemma str_nat_step: "10 \<le> n \<Longrightarrow> str_nat n = str_nat (n div 10) @ [digit (n mod 10)]"
  by (subst str_nat.simps) simp

lemma str_int_minus_one: "str_int (- 1) = ''-1''"
  by (simp add: str_int_def str_nat_digit digit_def)

lemma str_int_12291: "str_int 12291 = ''12291''"
  by (simp add: str_int_def str_nat_digit str_nat_step digit_def)

section \<open>Traces\<close>

lemma calls_Nil [simp]: "calls [] = []"
  by (simp add: calls_def)

lemma calls_append [simp]: "calls (xs @ ys) = calls xs @ calls ys"
  by (simp add: calls_def)

lemma calls_Cons [simp]: "calls (ev # tr) = (if is_binding ev then calls tr else ev # calls tr)"
  by (simp add: calls_def)

lemma calls_lookup [simp]: "is_binding ev \<Longrightarrow> calls (lookup P ev) = []"
  by (simp add: lookup_def)

lemma calls_comdlg32_bindings [simp]: "calls (comdlg32_bindings P) = []"
  by (simp add: comdlg32_bindings_def is_binding_def)

lemma member_via_calls:
  "\<not> is_binding x \<Longrightarrow> calls tr = cs \<Longrightarrow> x \<in> set tr \<longleftrightarrow> x \<in> set cs"
  by (auto simp: calls_def)


lemma filter_Print_via_calls:
  "calls tr = cs \<Longrightarrow> filter is_Print tr = filter is_Print cs"
  by (induction tr arbitrary: cs) (auto simp: is_Print_def is_binding_def split: event.splits)

lemma plain_events [simp]:
  "\<not> is_binding CoInitialize" "\<not> is_binding CoUninitialize"
  "\<not> is_binding CommDlgExtendedError" "\<not> is_binding (SHGetPathFromIDListW a)"
  "\<not> is_binding (CoTaskMemFree a)" "\<not> is_binding (SHBrowseForFolderW bi)"
  "\<not> is_binding (GetOpenFileNameW ofn)" "\<not> is_binding (Print line)"
  "is_binding (LoadLibrary lib)" "is_binding (GetProcAddress lib f)"
  by (simp_all add: is_binding_def)

section \<open>The allocation\<close>

lemma allocates_buffer:
  "allocates P n \<Longrightarrow> create_unicode_buffer (memory P) n = Inr (replicate (nat n) NUL)"
  by (simp add: allocates_def create_unicode_buffer_def)

lemma refused_error:
  "\<not> allocates P n \<Longrightarrow>
   \<exists>e. create_unicode_buffer (memory P) n = Inl e \<and> e \<noteq> ValueError invalid_mode"
  by (auto simp: allocates_def create_unicode_buffer_def invalid_mode_def)

lemma negative_error:
  "n < 0 \<Longrightarrow> create_unicode_buffer avail n =
     Inl (if n < - 9223372036854775808
          then OverflowError ''cannot fit 'int' into an index-sized integer''
          else ValueError (''Array length must be >= 0, not '' @ str_int n))"
  by (simp add: create_unicode_buffer_def)

section \<open>The branches of select_items\<close>

lemma select_items_refused:
  "create_unicode_buffer (memory P) n = Inl e \<Longrightarrow> select_items P m n = ([], Inl e)"
  by (simp add: select_items_def)

lemma select_items_folder_result:
  "allocates P n \<Longrightarrow> snd (select_items P ''folder'' n) =
     (if browse_pidl P \<noteq> 0 then Inr [takeWhile (\<lambda>c. c \<noteq> NUL) (folder_buffer P n)]
      else Inr [])"
  by (simp add: select_items_def allocates_buffer folder_buffer_def item0_split_sep Let_def)

lemma select_items_folder_calls:
  "allocates P n \<Longrightarrow> calls (fst (select_items P ''folder'' n)) =
     (if browse_pidl P \<noteq> 0 then
        [CoInitialize, SHBrowseForFolderW \<lparr>ulFlags = FOS_PICKFOLDERS\<rparr>,
         SHGetPathFromIDListW (browse_pidl P), CoTaskMemFree (browse_pidl P), CoUninitialize]
      else [CoInitialize, SHBrowseForFolderW \<lparr>ulFlags = FOS_PICKFOLDERS\<rparr>, CoUninitialize])"
  by (simp add: select_items_def allocates_buffer item0_split_sep Let_def is_binding_def)

lemma select_items_folder_trace:
  "allocates P n \<Longrightarrow> fst (select_items P ''folder'' n) =
     lookup P (LoadLibrary ''shell32'') @ lookup P (LoadLibrary ''ole32'')
     @ lookup P (GetProcAddress ''ole32'' ''CoInitialize'') @ [CoInitialize]
     @ lookup P (GetProcAddress ''shell32'' ''SHBrowseForFolderW'')
     @ lookup P (GetProcAddress ''shell32'' ''SHGetPathFromIDListW'')
     @ lookup P (GetProcAddress ''ole32'' ''CoTaskMemFree'')
     @ [SHBrowseForFolderW \<lparr>ulFlags = FOS_PICKFOLDERS\<rparr>]
     @ (if browse_pidl P \<noteq> 0
        then [SHGetPathFromIDListW (browse_pidl P), CoTaskMemFree (browse_pidl P)] else [])
     @ lookup P (GetProcAddress ''ole32'' ''CoUninitialize'') @ [CoUninitialize]"
  by (simp add: select_items_def allocates_buffer item0_split_sep Let_def)


lemma select_items_folder_status:
  "select_items (P\<lparr>getpath_ok := b\<rparr>) ''folder'' n = select_items P ''folder'' n"
  by (cases "create_unicode_buffer (memory P) n")
     (simp_all add: select_items_def lookup_def Let_def)

lemma select_items_unknown:
  "allocates P n \<Longrightarrow> m \<noteq> ''folder'' \<Longrightarrow> m \<noteq> ''file'' \<Longrightarrow> m \<noteq> ''multi-files'' \<Longrightarrow>
   select_items P m n = (comdlg32_bindings P, Inl (ValueError invalid_mode))"
  by (simp add: select_items_def allocates_buffer comdlg32_bindings_def)

lemma select_items_chosen:
  assumes "allocates P n" and "m = ''file'' \<or> m = ''multi-files''" and "open_flag P \<noteq> 0"
  shows "select_items P m n =
     (comdlg32_bindings P @ [GetOpenFileNameW (ofn_of m n)],
      (case tokens (file_buffer P n) of
         [] \<Rightarrow> Inl (IndexError ''list index out of range'')
       | [t] \<Rightarrow> Inr [t]
       | d # f # fs \<Rightarrow> Inr (map (path_join P d) (f # fs))))"
proof -
  have *: "filter (\<lambda>item. item \<noteq> [])
             (split_sep NUL (store (replicate (nat n) NUL) (open_text P)))
           = tokens (file_buffer P n)"
    by (simp add: tokens_def file_buffer_def)
  show ?thesis
    using assms filter_tail_tokens [of "file_buffer P n"]
    by (cases "tokens (file_buffer P n)"; cases "tl (tokens (file_buffer P n))")
       (auto simp: select_items_def allocates_buffer Let_def * item0_def ofn_of_def
                   comdlg32_bindings_def)
qed

lemma select_items_dismissed:
  assumes "allocates P n" and "m = ''file'' \<or> m = ''multi-files''" and "open_flag P = 0"
  shows "select_items P m n =
     (comdlg32_bindings P @
      [GetOpenFileNameW (ofn_of m n), CommDlgExtendedError,
       Print (if extended_error P = 0 then ''Dialog canceled.''
              else ''Error occurred. CommDlgExtendedError code: ''
                   @ str_int (sint (extended_error P)))],
      Inr [])"
  using assms
  by (auto simp: select_items_def allocates_buffer Let_def ofn_of_def comdlg32_bindings_def)

lemma file_buffer_blank:
  "0 \<le> n \<Longrightarrow> length (open_text P) \<le> nat n \<Longrightarrow>
   file_buffer P n = open_text P @ replicate (nat n - length (open_text P)) NUL"
  by (simp add: file_buffer_def store_blank)

section \<open>The worked examples\<close>

lemma tokens_multi_selection:
  "tokens multi_selection = [''C:'' @ [BSL] @ ''Dir'', ''a.txt'', ''b.txt'']"
  by (simp add: tokens_def multi_selection_def)

lemma tokens_single_selection:
  "tokens single_selection = [''C:'' @ [BSL] @ ''Dir'' @ [BSL] @ ''a.txt'']"
  by (simp add: tokens_def single_selection_def)

lemma ntpath_join_a:
  "ntpath_join (''C:'' @ [BSL] @ ''Dir'') ''a.txt'' = ''C:'' @ [BSL] @ ''Dir'' @ [BSL] @ ''a.txt''"
  by (simp add: ntpath_join_def splitdrive_def is_sep_def)

lemma ntpath_join_b:
  "ntpath_join (''C:'' @ [BSL] @ ''Dir'') ''b.txt'' = ''C:'' @ [BSL] @ ''Dir'' @ [BSL] @ ''b.txt''"
  by (simp add: ntpath_join_def splitdrive_def is_sep_def)

section \<open>Parsing a selection of several files\<close>

text \<open>
  C1. In \<open>'multi-files'\<close> mode, when the dialog reports success and the buffer holds more
  than one non-empty piece between null characters, the first piece is the shared
  directory and the result lists, in buffer order, \<open>os.path.join\<close> of the directory with
  each later piece. In particular a buffer holding \<open>C:\Dir\<close>, \<open>a.txt\<close>, \<open>b.txt\<close>, each
  closed by a null character, and a final null character (followed by any number of
  untouched null cells) yields exactly \<open>C:\Dir\a.txt\<close> and \<open>C:\Dir\b.txt\<close>. The dialog
  is reached only with a buffer, hence the size that the allocation accepts.
\<close>

theorem multi_files_join:
  "(allocates P n \<and> open_flag P \<noteq> 0 \<and> tokens (file_buffer P n) = d # f # fs \<longrightarrow>
      snd (select_items P ''multi-files'' n) = Inr (map (path_join P d) (f # fs)))
   \<and> (allocates P n \<and> open_flag P \<noteq> 0 \<and> file_buffer P n = multi_selection @ replicate k NUL
        \<and> path_join P = ntpath_join \<longrightarrow>
      snd (select_items P ''multi-files'' n)
        = Inr [''C:'' @ [BSL] @ ''Dir'' @ [BSL] @ ''a.txt'',
               ''C:'' @ [BSL] @ ''Dir'' @ [BSL] @ ''b.txt''])"
proof (intro conjI impI)
  assume "allocates P n \<and> open_flag P \<noteq> 0 \<and> tokens (file_buffer P n) = d # f # fs"
  then show "snd (select_items P ''multi-files'' n) = Inr (map (path_join P d) (f # fs))"
    by (simp add: select_items_chosen)
next
  assume a: "allocates P n \<and> open_flag P \<noteq> 0
        \<and> file_buffer P n = multi_selection @ replicate k NUL
        \<and> path_join P = ntpath_join"
  then have "tokens (file_buffer P n) = [''C:'' @ [BSL] @ ''Dir'', ''a.txt'', ''b.txt'']"
    by (simp add: tokens_padding tokens_multi_selection)
  with a show "snd (select_items P ''multi-files'' n)
        = Inr [''C:'' @ [BSL] @ ''Dir'' @ [BSL] @ ''a.txt'',
               ''C:'' @ [BSL] @ ''Dir'' @ [BSL] @ ''b.txt'']"
    using ntpath_join_a ntpath_join_b by (simp add: select_items_chosen)
qed

theorem multi_files_join_witness:
  "allocates (idle\<lparr>open_flag := 1, open_text := multi_selection\<rparr>) 8192
   \<and> open_flag (idle\<lparr>open_flag := 1, open_text := multi_selection\<rparr>) \<noteq> 0
   \<and> file_buffer (idle\<lparr>open_flag := 1, open_text := multi_selection\<rparr>) 8192
       = multi_selection @ replicate 8172 NUL
   \<and> tokens (file_buffer (idle\<lparr>open_flag := 1, open_text := multi_selection\<rparr>) 8192)
       = [''C:'' @ [BSL] @ ''Dir'', ''a.txt'', ''b.txt'']
   \<and> path_join (idle\<lparr>open_flag := 1, open_text := multi_selection\<rparr>) = ntpath_join
   \<and> snd (select_items (idle\<lparr>open_flag := 1, open_text := multi_selection\<rparr>) ''multi-files'' 8192)
       = Inr [''C:'' @ [BSL] @ ''Dir'' @ [BSL] @ ''a.txt'',
              ''C:'' @ [BSL] @ ''Dir'' @ [BSL] @ ''b.txt'']"
proof -
  let ?P = "idle\<lparr>open_flag := 1, open_text := multi_selection\<rparr>"
  have len: "length multi_selection = 20" by (simp add: multi_selection_def)
  have a: "allocates ?P 8192" by (simp add: allocates_def idle_def)
  have b: "file_buffer ?P 8192 = multi_selection @ replicate 8172 NUL"
    using file_buffer_blank [of 8192 ?P] by (simp add: len)
  have t: "tokens (file_buffer ?P 8192) = [''C:'' @ [BSL] @ ''Dir'', ''a.txt'', ''b.txt'']"
    by (simp only: b tokens_padding tokens_multi_selection)
  have j: "path_join ?P = ntpath_join" by (simp add: idle_def)
  have f: "open_flag ?P \<noteq> 0" by simp
  from multi_files_join [of ?P 8192 "''C:'' @ [BSL] @ ''Dir''" "''a.txt''" "[''b.txt'']" 8172]
  show ?thesis using a b t j f ntpath_join_a ntpath_join_b by simp
qed

section \<open>A selection of one file\<close>

text \<open>
  C7. In \<open>'file'\<close> and \<open>'multi-files'\<close> modes, when the dialog reports success and the
  buffer holds exactly one non-empty piece between null characters, that piece is
  returned unchanged as the only path. In particular a buffer holding \<open>C:\Dir\a.txt\<close>
  and two null characters (followed by any number of untouched null cells) yields exactly
  \<open>C:\Dir\a.txt\<close>.
\<close>

theorem single_token_unchanged:
  "(allocates P n \<and> (m = ''file'' \<or> m = ''multi-files'') \<and> open_flag P \<noteq> 0
      \<and> tokens (file_buffer P n) = [t] \<longrightarrow>
      snd (select_items P m n) = Inr [t])
   \<and> (allocates P n \<and> (m = ''file'' \<or> m = ''multi-files'') \<and> open_flag P \<noteq> 0
        \<and> file_buffer P n = single_selection @ replicate k NUL \<longrightarrow>
      snd (select_items P m n) = Inr [''C:'' @ [BSL] @ ''Dir'' @ [BSL] @ ''a.txt''])"
proof (intro conjI impI)
  assume "allocates P n \<and> (m = ''file'' \<or> m = ''multi-files'') \<and> open_flag P \<noteq> 0
      \<and> tokens (file_buffer P n) = [t]"
  then show "snd (select_items P m n) = Inr [t]"
    by (simp add: select_items_chosen)
next
  assume a: "allocates P n \<and> (m = ''file'' \<or> m = ''multi-files'') \<and> open_flag P \<noteq> 0
        \<and> file_buffer P n = single_selection @ replicate k NUL"
  then have "tokens (file_buffer P n) = [''C:'' @ [BSL] @ ''Dir'' @ [BSL] @ ''a.txt'']"
    by (simp add: tokens_padding tokens_single_selection)
  with a show "snd (select_items P m n) = Inr [''C:'' @ [BSL] @ ''Dir'' @ [BSL] @ ''a.txt'']"
    by (simp add: select_items_chosen)
qed

theorem single_token_unchanged_witness:
  "allocates (idle\<lparr>open_flag := 1, open_text := single_selection\<rparr>) 8192
   \<and> open_flag (idle\<lparr>open_flag := 1, open_text := single_selection\<rparr>) \<noteq> 0
   \<and> file_buffer (idle\<lparr>open_flag := 1, open_text := single_selection\<rparr>) 8192
       = single_selection @ replicate 8178 NUL
   \<and> tokens (file_buffer (idle\<lparr>open_flag := 1, open_text := single_selection\<rparr>) 8192)
       = [''C:'' @ [BSL] @ ''Dir'' @ [BSL] @ ''a.txt'']
   \<and> snd (select_items (idle\<lparr>open_flag := 1, open_text := single_selection\<rparr>) ''file'' 8192)
       = Inr [''C:'' @ [BSL] @ ''Dir'' @ [BSL] @ ''a.txt'']
   \<and> snd (select_items (idle\<lparr>open_flag := 1, open_text := single_selection\<rparr>) ''multi-files'' 8192)
       = Inr [''C:'' @ [BSL] @ ''Dir'' @ [BSL] @ ''a.txt'']"
proof -
  let ?P = "idle\<lparr>open_flag := 1, open_text := single_selection\<rparr>"
  have len: "length single_selection = 14" by (simp add: single_selection_def)
  have a: "allocates ?P 8192" by (simp add: allocates_def idle_def)
  have b: "file_buffer ?P 8192 = single_selection @ replicate 8178 NUL"
    using file_buffer_blank [of 8192 ?P] by (simp add: len)
  have t: "tokens (file_buffer ?P 8192) = [''C:'' @ [BSL] @ ''Dir'' @ [BSL] @ ''a.txt'']"
    by (simp only: b tokens_padding tokens_single_selection)
  have f: "open_flag ?P \<noteq> 0" by simp
  from single_token_unchanged [of ?P 8192 "''file''" "''C:'' @ [BSL] @ ''Dir'' @ [BSL] @ ''a.txt''" 8178]
       single_token_unchanged [of ?P 8192 "''multi-files''" "''C:'' @ [BSL] @ ''Dir'' @ [BSL] @ ''a.txt''" 8178]
  show ?thesis using a b t f by simp
qed

section \<open>A success with nothing in the buffer\<close>

text \<open>
  C8. In \<open>'file'\<close> and \<open>'multi-files'\<close> modes, when the dialog reports success, the first
  piece is read without a check that there is one: if every cell of the buffer is a null
  character (also when the buffer has no cell), the call ends in the index error of
  \<open>result[0]\<close>, after the dialog, and returns no list.
\<close>

theorem empty_buffer_index_error:
  assumes "allocates P n" and "m = ''file'' \<or> m = ''multi-files''" and "open_flag P \<noteq> 0"
    and "set (file_buffer P n) \<subseteq> {NUL}"
  shows "select_items P m n
           = (comdlg32_bindings P @ [GetOpenFileNameW (ofn_of m n)],
              Inl (IndexError ''list index out of range''))"
proof -
  have "tokens (file_buffer P n) = []"
    using assms(4) by (simp add: tokens_empty_iff)
  with assms(1-3) show ?thesis by (simp add: select_items_chosen)
qed

theorem empty_buffer_index_error_witness:
  "allocates (idle\<lparr>open_flag := 1\<rparr>) 8192 \<and> allocates (idle\<lparr>open_flag := 1\<rparr>) 0
   \<and> open_flag (idle\<lparr>open_flag := 1\<rparr>) \<noteq> 0
   \<and> set (file_buffer (idle\<lparr>open_flag := 1\<rparr>) 8192) \<subseteq> {NUL}
   \<and> snd (select_items (idle\<lparr>open_flag := 1\<rparr>) ''file'' 8192)
       = Inl (IndexError ''list index out of range'')
   \<and> snd (select_items (idle\<lparr>open_flag := 1\<rparr>) ''multi-files'' 0)
       = Inl (IndexError ''list index out of range'')"
proof -
  let ?P = "idle\<lparr>open_flag := 1\<rparr>"
  have b: "set (file_buffer ?P n) \<subseteq> {NUL}" for n
    by (auto simp: file_buffer_def store_def idle_def)
  have a: "allocates ?P 8192" "allocates ?P 0" by (simp_all add: allocates_def idle_def)
  from empty_buffer_index_error [of ?P 8192 "''file''"]
       empty_buffer_index_error [of ?P 0 "''multi-files''"]
  show ?thesis using a b by simp
qed

section \<open>Refused arguments\<close>

text \<open>
  C2, as stated, fails twice. A call with an unknown mode, in a process that has not
  bound comdlg32 yet, loads that library and looks up its two functions (lines 111 to
  114) before line 145 raises: the operating system has been asked three times. And
  with a buffer size that the allocation refuses otherwise than for its sign, the error
  raised is no \<open>ValueError\<close>.
\<close>

theorem invalid_mode_binds:
  "select_items idle ''invalid'' 8192
     = ([LoadLibrary ''comdlg32'', GetProcAddress ''comdlg32'' ''GetOpenFileNameW'',
         GetProcAddress ''comdlg32'' ''CommDlgExtendedError''],
        Inl (ValueError invalid_mode))
   \<and> fst (select_items idle ''invalid'' 8192) \<noteq> []
   \<and> select_items idle ''invalid'' 4611686018427387904
       = ([], Inl (OverflowError ''array too large''))"
proof -
  have a: "allocates idle 8192" by (simp add: allocates_def idle_def)
  have "create_unicode_buffer (memory idle) 4611686018427387904
          = Inl (OverflowError ''array too large'')"
    by (simp add: create_unicode_buffer_def)
  then have big: "select_items idle ''invalid'' 4611686018427387904
                    = ([], Inl (OverflowError ''array too large''))"
    by (rule select_items_refused)
  have "select_items idle ''invalid'' 8192 = (comdlg32_bindings idle, Inl (ValueError invalid_mode))"
    using a by (simp add: select_items_unknown)
  then show ?thesis
    using big by (simp add: comdlg32_bindings_def lookup_def idle_def)
qed

text \<open>
  C2, amended. For every \<open>select_mode\<close> other than \<open>'folder'\<close>, \<open>'file'\<close> and \<open>'multi-files'\<close>
  the call raises, and it neither calls a function of the dialog services nor prints.
  When the allocation accepts the buffer size, the error is the \<open>ValueError\<close> of line
  145, and all the call has asked of the operating system is to bind comdlg32 and its two
  functions, as far as the process had not bound them. When the allocation refuses the
  size, the error is the one of the allocation and the operating system has not been
  asked anything.
\<close>

theorem invalid_mode_raises:
  assumes "m \<noteq> ''folder''" and "m \<noteq> ''file''" and "m \<noteq> ''multi-files''"
  shows "(allocates P n \<longrightarrow>
            select_items P m n = (comdlg32_bindings P, Inl (ValueError invalid_mode)))
         \<and> (\<not> allocates P n \<longrightarrow>
              (\<exists>e. create_unicode_buffer (memory P) n = Inl e
                   \<and> select_items P m n = ([], Inl e)))
         \<and> calls (fst (select_items P m n)) = []
         \<and> (\<exists>e. snd (select_items P m n) = Inl e)"
proof (cases "allocates P n")
  case True
  with assms show ?thesis by (simp add: select_items_unknown)
next
  case False
  then obtain e where "create_unicode_buffer (memory P) n = Inl e"
    using refused_error by blast
  with False show ?thesis by (simp add: select_items_refused)
qed

theorem invalid_mode_raises_witness:
  "''invalid'' \<noteq> ''folder'' \<and> ''invalid'' \<noteq> ''file'' \<and> ''invalid'' \<noteq> ''multi-files''
   \<and> allocates idle 8192
   \<and> select_items idle ''invalid'' 8192 = (comdlg32_bindings idle, Inl (ValueError invalid_mode))
   \<and> calls (fst (select_items idle ''invalid'' 8192)) = []
   \<and> \<not> allocates idle (- 1)
   \<and> select_items idle ''invalid'' (- 1)
       = ([], Inl (ValueError ''Array length must be >= 0, not -1''))"
proof -
  have a: "allocates idle 8192" "\<not> allocates idle (- 1)"
    by (simp_all add: allocates_def idle_def)
  have e: "create_unicode_buffer (memory idle) (- 1)
             = Inl (ValueError ''Array length must be >= 0, not -1'')"
    by (simp add: negative_error str_int_minus_one)
  from invalid_mode_raises [of "''invalid''" idle 8192]
       invalid_mode_raises [of "''invalid''" idle "- 1"]
  show ?thesis using a e by simp
qed

text \<open>
  C10. The buffer is allocated before the mode is looked at: with a negative
  \<open>buffer_size\<close> every mode, valid or not, ends in the error of the allocation, which is
  not the invalid-mode error, and the trace is empty, so no dialog logic has run and
  nothing has been bound. The error is the \<open>ValueError\<close> of the negative array length,
  and below \<open>-2^63\<close> the \<open>OverflowError\<close> of a length that fits no index.
\<close>

theorem negative_size_refused:
  assumes "n < 0"
  shows "select_items P m n
           = ([], Inl (if n < - 9223372036854775808
                       then OverflowError ''cannot fit 'int' into an index-sized integer''
                       else ValueError (''Array length must be >= 0, not '' @ str_int n)))
         \<and> snd (select_items P m n) \<noteq> Inl (ValueError invalid_mode)"
  using assms negative_error [of n "memory P"]
  by (simp add: select_items_refused invalid_mode_def)

theorem negative_size_refused_witness:
  "(- 1 :: int) < 0
   \<and> select_items idle ''invalid'' (- 1) = ([], Inl (ValueError ''Array length must be >= 0, not -1''))
   \<and> select_items idle ''folder'' (- 1) = ([], Inl (ValueError ''Array length must be >= 0, not -1''))
   \<and> select_items idle ''multi-files'' (- 1) = ([], Inl (ValueError ''Array length must be >= 0, not -1''))
   \<and> (- 9223372036854775809 :: int) < 0
   \<and> select_items idle ''file'' (- 9223372036854775809)
       = ([], Inl (OverflowError ''cannot fit 'int' into an index-sized integer''))"
  using negative_size_refused [of "- 1" idle "''invalid''"]
        negative_size_refused [of "- 1" idle "''folder''"]
        negative_size_refused [of "- 1" idle "''multi-files''"]
        negative_size_refused [of "- 9223372036854775809" idle "''file''"]
  by (simp add: str_int_minus_one)

section \<open>Cancellation and failure of the dialog\<close>

text \<open>
  C3. For each valid mode, a cancelled dialog makes the call return the empty list, not
  raise: in folder mode the browse dialog returns the null identifier; in the two file
  modes the open-file dialog returns zero and the extended error code is zero. The
  dialog is reached only with a buffer, hence the size that the allocation accepts.
\<close>

theorem cancel_returns_empty:
  assumes "allocates P n"
  shows "(browse_pidl P = 0 \<longrightarrow> snd (select_items P ''folder'' n) = Inr [])
         \<and> ((m = ''file'' \<or> m = ''multi-files'') \<and> open_flag P = 0 \<and> extended_error P = 0 \<longrightarrow>
              snd (select_items P m n) = Inr [])"
  using assms by (auto simp: select_items_folder_result select_items_dismissed)

theorem cancel_returns_empty_witness:
  "allocates idle 8192 \<and> browse_pidl idle = 0 \<and> open_flag idle = 0 \<and> extended_error idle = 0
   \<and> snd (select_items idle ''folder'' 8192) = Inr []
   \<and> snd (select_items idle ''file'' 8192) = Inr []
   \<and> snd (select_items idle ''multi-files'' 8192) = Inr []"
proof -
  have a: "allocates idle 8192" by (simp add: allocates_def idle_def)
  from cancel_returns_empty [of idle 8192 "''file''"]
       cancel_returns_empty [of idle 8192 "''multi-files''"]
  show ?thesis using a by (simp add: idle_def)
qed

text \<open>
  C4, as stated for every valid mode, fails in folder mode: there a dialog that fails
  returns the null identifier like a cancelled one, and the call returns the empty list
  with no extended error code fetched and nothing printed, whatever that code is.
\<close>

theorem folder_failure_undiagnosed:
  "browse_pidl (idle\<lparr>extended_error := 2\<rparr>) = 0
   \<and> extended_error (idle\<lparr>extended_error := 2\<rparr>) \<noteq> 0
   \<and> select_items (idle\<lparr>extended_error := 2\<rparr>) ''folder'' 8192
       = ([LoadLibrary ''shell32'', LoadLibrary ''ole32'',
           GetProcAddress ''ole32'' ''CoInitialize'', CoInitialize,
           GetProcAddress ''shell32'' ''SHBrowseForFolderW'',
           GetProcAddress ''shell32'' ''SHGetPathFromIDListW'',
           GetProcAddress ''ole32'' ''CoTaskMemFree'',
           SHBrowseForFolderW \<lparr>ulFlags = 0x20\<rparr>,
           GetProcAddress ''ole32'' ''CoUninitialize'', CoUninitialize], Inr [])
   \<and> \<not> diagnosed (idle\<lparr>extended_error := 2\<rparr>) ''folder'' 8192"
proof -
  have a: "allocates (idle\<lparr>extended_error := 2\<rparr>) 8192"
    by (simp add: allocates_def idle_def)
  have "select_items (idle\<lparr>extended_error := 2\<rparr>) ''folder'' 8192
       = ([LoadLibrary ''shell32'', LoadLibrary ''ole32'',
           GetProcAddress ''ole32'' ''CoInitialize'', CoInitialize,
           GetProcAddress ''shell32'' ''SHBrowseForFolderW'',
           GetProcAddress ''shell32'' ''SHGetPathFromIDListW'',
           GetProcAddress ''ole32'' ''CoTaskMemFree'',
           SHBrowseForFolderW \<lparr>ulFlags = 0x20\<rparr>,
           GetProcAddress ''ole32'' ''CoUninitialize'', CoUninitialize], Inr [])"
  proof -
    have "fst (select_items (idle\<lparr>extended_error := 2\<rparr>) ''folder'' 8192)
            = [LoadLibrary ''shell32'', LoadLibrary ''ole32'',
               GetProcAddress ''ole32'' ''CoInitialize'', CoInitialize,
               GetProcAddress ''shell32'' ''SHBrowseForFolderW'',
               GetProcAddress ''shell32'' ''SHGetPathFromIDListW'',
               GetProcAddress ''ole32'' ''CoTaskMemFree'',
               SHBrowseForFolderW \<lparr>ulFlags = 0x20\<rparr>,
               GetProcAddress ''ole32'' ''CoUninitialize'', CoUninitialize]"
      by (simp only: select_items_folder_trace [OF a])
         (simp add: lookup_def idle_def FOS_PICKFOLDERS_def)
    moreover have "snd (select_items (idle\<lparr>extended_error := 2\<rparr>) ''folder'' 8192) = Inr []"
      by (simp only: select_items_folder_result [OF a]) (simp add: idle_def)
    ultimately show ?thesis by (simp add: prod_eq_iff)
  qed
  then show ?thesis by (simp add: diagnosed_def idle_def)
qed

text \<open>
  C4, amended. In \<open>'file'\<close> and \<open>'multi-files'\<close> modes, when the dialog returns zero and
  the extended error code is not zero, the call fetches the code, prints one line that
  carries it in decimal, and returns the empty list. In folder mode a dialog that returns
  the null identifier gives the empty list too, without raising; there the call
  initialises COM, shows the dialog and uninitialises COM and does nothing else: it
  fetches no extended error code and prints no line.
\<close>

theorem failure_diagnosed:
  assumes "allocates P n"
  shows "((m = ''file'' \<or> m = ''multi-files'') \<and> open_flag P = 0 \<and> extended_error P \<noteq> 0 \<longrightarrow>
            diagnosed P m n
            \<and> select_items P m n
                = (comdlg32_bindings P @
                   [GetOpenFileNameW (ofn_of m n), CommDlgExtendedError,
                    Print (''Error occurred. CommDlgExtendedError code: ''
                           @ str_int (sint (extended_error P)))], Inr []))
         \<and> (browse_pidl P = 0 \<longrightarrow>
               snd (select_items P ''folder'' n) = Inr []
               \<and> calls (fst (select_items P ''folder'' n))
                   = [CoInitialize, SHBrowseForFolderW \<lparr>ulFlags = FOS_PICKFOLDERS\<rparr>,
                      CoUninitialize]
               \<and> CommDlgExtendedError \<notin> set (fst (select_items P ''folder'' n))
               \<and> filter is_Print (fst (select_items P ''folder'' n)) = [])"
proof (intro conjI impI)
  assume h: "(m = ''file'' \<or> m = ''multi-files'') \<and> open_flag P = 0 \<and> extended_error P \<noteq> 0"
  with assms show "diagnosed P m n"
    by (simp add: diagnosed_def select_items_dismissed)
  from h assms show "select_items P m n
                = (comdlg32_bindings P @
                   [GetOpenFileNameW (ofn_of m n), CommDlgExtendedError,
                    Print (''Error occurred. CommDlgExtendedError code: ''
                           @ str_int (sint (extended_error P)))], Inr [])"
    by (simp add: select_items_dismissed)
next
  assume z: "browse_pidl P = 0"
  with assms show "snd (select_items P ''folder'' n) = Inr []"
    by (simp add: select_items_folder_result)
  from z assms show c: "calls (fst (select_items P ''folder'' n))
                   = [CoInitialize, SHBrowseForFolderW \<lparr>ulFlags = FOS_PICKFOLDERS\<rparr>,
                      CoUninitialize]"
    by (simp add: select_items_folder_calls)
  show "CommDlgExtendedError \<notin> set (fst (select_items P ''folder'' n))"
    using member_via_calls [OF _ c, of CommDlgExtendedError] by simp
  show "filter is_Print (fst (select_items P ''folder'' n)) = []"
    using filter_Print_via_calls [OF c] by (simp add: is_Print_def)
qed

theorem failure_diagnosed_witness:
  "allocates (idle\<lparr>extended_error := 0x3003\<rparr>) 8192
   \<and> open_flag (idle\<lparr>extended_error := 0x3003\<rparr>) = 0
   \<and> extended_error (idle\<lparr>extended_error := 0x3003\<rparr>) \<noteq> 0
   \<and> browse_pidl (idle\<lparr>extended_error := 0x3003\<rparr>) = 0
   \<and> select_items (idle\<lparr>extended_error := 0x3003\<rparr>) ''file'' 8192
       = (comdlg32_bindings (idle\<lparr>extended_error := 0x3003\<rparr>) @
          [GetOpenFileNameW (ofn_of ''file'' 8192), CommDlgExtendedError,
           Print ''Error occurred. CommDlgExtendedError code: 12291''], Inr [])
   \<and> snd (select_items (idle\<lparr>extended_error := 0x3003\<rparr>) ''folder'' 8192) = Inr []
   \<and> filter is_Print (fst (select_items (idle\<lparr>extended_error := 0x3003\<rparr>) ''folder'' 8192)) = []"
proof -
  have c: "str_int (sint (0x3003 :: 32 word)) = ''12291''"
    by (simp add: str_int_12291)
  have a: "allocates (idle\<lparr>extended_error := 0x3003\<rparr>) 8192"
    by (simp add: allocates_def idle_def)
  from failure_diagnosed [of "idle\<lparr>extended_error := 0x3003\<rparr>" 8192 "''file''"]
  show ?thesis using a c by (simp add: idle_def)
qed

section \<open>Folder mode\<close>






text \<open>
  C9. In folder mode the value returned by \<open>SHGetPathFromIDListW\<close> is not looked at:
  for every non-null identifier the call returns the one-element list of the text before
  the first null character of the buffer, whatever the resolution returned; that text is
  the display name when the resolution stored nothing, and the empty string when nothing
  was stored at all. On no path of folder mode is the extended error code fetched or a
  line printed.
\<close>

theorem folder_status_ignored:
  "(allocates P n \<and> browse_pidl P \<noteq> 0 \<longrightarrow>
      snd (select_items P ''folder'' n) = Inr [takeWhile (\<lambda>c. c \<noteq> NUL) (folder_buffer P n)])
   \<and> select_items (P\<lparr>getpath_ok := b\<rparr>) ''folder'' n = select_items P ''folder'' n
   \<and> CommDlgExtendedError \<notin> set (fst (select_items P ''folder'' n))
   \<and> filter is_Print (fst (select_items P ''folder'' n)) = []"
proof (intro conjI impI)
  assume "allocates P n \<and> browse_pidl P \<noteq> 0"
  then show "snd (select_items P ''folder'' n)
               = Inr [takeWhile (\<lambda>c. c \<noteq> NUL) (folder_buffer P n)]"
    by (simp add: select_items_folder_result)
next
  show "select_items (P\<lparr>getpath_ok := b\<rparr>) ''folder'' n = select_items P ''folder'' n"
    by (rule select_items_folder_status)
next
  have c: "CommDlgExtendedError \<notin> set (calls (fst (select_items P ''folder'' n)))
           \<and> filter is_Print (calls (fst (select_items P ''folder'' n))) = []"
  proof (cases "allocates P n")
    case True
    then show ?thesis by (simp add: select_items_folder_calls is_Print_def)
  next
    case False
    then obtain e where "create_unicode_buffer (memory P) n = Inl e"
      using refused_error by blast
    then show ?thesis by (simp add: select_items_refused)
  qed
  then show "CommDlgExtendedError \<notin> set (fst (select_items P ''folder'' n))"
    using member_via_calls [OF _ refl, of CommDlgExtendedError "fst (select_items P ''folder'' n)"]
    by simp
  from c show "filter is_Print (fst (select_items P ''folder'' n)) = []"
    using filter_Print_via_calls [OF refl, of "fst (select_items P ''folder'' n)"] by simp
qed

theorem folder_status_ignored_witness:
  "allocates (idle\<lparr>browse_pidl := 4096\<rparr>) 8192
   \<and> browse_pidl (idle\<lparr>browse_pidl := 4096\<rparr>) \<noteq> 0
   \<and> getpath_ok (idle\<lparr>browse_pidl := 4096\<rparr>) = 0
   \<and> snd (select_items (idle\<lparr>browse_pidl := 4096\<rparr>) ''folder'' 8192) = Inr [[]]
   \<and> snd (select_items (idle\<lparr>browse_pidl := 4096, browse_text := ''Docs'' @ [NUL]\<rparr>) ''folder'' 8192)
       = Inr [''Docs'']"
proof -
  have a: "allocates (idle\<lparr>browse_pidl := 4096\<rparr>) 8192"
    "allocates (idle\<lparr>browse_pidl := 4096, browse_text := ''Docs'' @ [NUL]\<rparr>) 8192"
    by (simp_all add: allocates_def idle_def)
  have "folder_buffer (idle\<lparr>browse_pidl := 4096\<rparr>) n = replicate (nat n) NUL" for n
    by (simp add: folder_buffer_def store_def idle_def)
  then have e: "takeWhile (\<lambda>c. c \<noteq> NUL) (folder_buffer (idle\<lparr>browse_pidl := 4096\<rparr>) n) = []" for n
    by (simp add: takeWhile_eq_Nil_iff)
  have "folder_buffer (idle\<lparr>browse_pidl := 4096, browse_text := ''Docs'' @ [NUL]\<rparr>) n
          = store (replicate (nat n) NUL) (''Docs'' @ NUL # [])" for n
    by (simp add: folder_buffer_def idle_def store_def)
  moreover have "4 < nat n \<Longrightarrow> takeWhile (\<lambda>c. c \<noteq> NUL)
                 (store (replicate (nat n) NUL) (''Docs'' @ NUL # [])) = ''Docs''" for n
    by (rule takeWhile_store_prefix) simp_all
  ultimately have d: "4 < nat n \<Longrightarrow> takeWhile (\<lambda>c. c \<noteq> NUL)
                  (folder_buffer (idle\<lparr>browse_pidl := 4096, browse_text := ''Docs'' @ [NUL]\<rparr>) n)
                = ''Docs''" for n
    by simp
  from folder_status_ignored [of "idle\<lparr>browse_pidl := 4096\<rparr>" 8192]
       folder_status_ignored [of "idle\<lparr>browse_pidl := 4096, browse_text := ''Docs'' @ [NUL]\<rparr>" 8192]
  show ?thesis using a e [of 8192] d [of 8192] by (simp add: idle_def)
qed

end
